theory Spec2Isabelle
  imports Main "HOL-Library.Word"
begin

unbundle bit_operations_syntax

section \<open>SAR ADC example: the data of \<^verbatim>\<open>main.c\<close>\<close>

text \<open>
  The C integer types of the source are machine words. An \<^verbatim>\<open>int32_t\<close> is a
  32-bit word read with \<open>sint\<close> where the source compares or prints it as a signed
  number.
\<close>

type_synonym int32_t = "32 word"
type_synonym uint32_t = "32 word"
type_synonym uint16_t = "16 word"
type_synonym uint8_t = "8 word"

text \<open>\<^verbatim>\<open>enum OutputFmt\<close>. The globals that hold a format are \<^verbatim>\<open>int32_t\<close>, so the
  enumerators are kept as the integers they stand for.\<close>

definition UNSIGNED_RIGHT_ALIGNED :: int32_t where
  "UNSIGNED_RIGHT_ALIGNED = 0"

definition SIGNED_RIGHT_ALIGNED :: int32_t where
  "SIGNED_RIGHT_ALIGNED = 1"

definition LEFT_ALIGNED :: int32_t where
  "LEFT_ALIGNED = 2"

definition FORMAT_NUM :: int32_t where
  "FORMAT_NUM = 3"

definition AVERAGE_COUNT_MIN :: uint32_t where
  "AVERAGE_COUNT_MIN = 1"

definition AVERAGE_COUNT_MAX :: uint32_t where
  "AVERAGE_COUNT_MAX = 256"

definition BAND_GAP_MV :: uint32_t where
  "BAND_GAP_MV = 900"

text \<open>\<^verbatim>\<open>OUTPUT_FORMAT_STR[FORMAT_NUM]\<close>: three labels of equal width.\<close>

definition OUTPUT_FORMAT_STR :: "string list" where
  "OUTPUT_FORMAT_STR =
     [''Unsigned/Right Aligned'',
      ''Signed/Right Aligned  '',
      ''Left Aligned          '']"

text \<open>What the driver's headers declare and the source only names: the two values of the
  alignment and of the sign extension of a channel, the reference buffer mode, and the two
  channels of the conversion group.\<close>

datatype cy_en_sar2_result_alignment_t =
  CY_SAR2_RESULT_ALIGNMENT_RIGHT | CY_SAR2_RESULT_ALIGNMENT_LEFT

datatype cy_en_sar2_sign_extention_t =
  CY_SAR2_SIGN_EXTENTION_UNSIGNED | CY_SAR2_SIGN_EXTENTION_SIGNED

datatype cy_en_sar2_ref_buf_mode_t = CY_SAR2_REF_BUF_MODE_ON

datatype channel = CE_SAR2_VBG_IDX | CE_SAR2_AN0_IDX

text \<open>The four fields of \<^verbatim>\<open>CE_SAR2_AN0_config\<close> that the source writes.\<close>

record cy_stc_sar2_channel_config_t =
  rightShift :: uint8_t
  averageCount :: uint16_t
  resultAlignment :: cy_en_sar2_result_alignment_t
  signExtention :: cy_en_sar2_sign_extention_t

text \<open>The memory of the program: its four globals and the channel configuration structure
  that \<^verbatim>\<open>Cy_SAR2_Init\<close> reads.\<close>

record memory =
  g_nextOutputFormat :: int32_t
  g_nextAverageCount :: int32_t
  g_outputFormat :: int32_t
  g_averageCount :: int32_t
  CE_SAR2_AN0_config :: cy_stc_sar2_channel_config_t

text \<open>Every call that leaves the program: the driver, the interrupt controller, the UART
  and the console.\<close>

datatype call =
    Cy_SAR2_DeInit
  | Cy_SAR2_Init
  | Cy_SAR2_SetReferenceBufferMode cy_en_sar2_ref_buf_mode_t
  | Cy_SAR2_Channel_SetInterruptMask channel uint32_t
  | Cy_SysInt_Init
  | NVIC_SetPriority uint32_t
  | NVIC_EnableIRQ
  | Cy_SAR2_Channel_SoftwareTrigger channel
  | Cy_SAR2_Channel_GetInterruptStatus channel
  | Cy_SAR2_Channel_ClearInterrupt channel uint32_t
  | Cy_SAR2_Channel_GetResult channel
  | Cy_SCB_UART_Get
  | printf string

text \<open>The state is the memory together with the trace of the calls made so far, oldest
  first. Each call is recorded with the memory as it was when the call was made, so the
  trace tells which stores came before a call and which after it.\<close>

record state = memory +
  trace :: "(call \<times> memory) list"

definition do_call :: "call \<Rightarrow> state \<Rightarrow> state" where
  "do_call c s = s\<lparr>trace := trace s @ [(c, memory.truncate s)]\<rparr>"

text \<open>The calls alone, and the text written to the console.\<close>

definition calls :: "state \<Rightarrow> call list" where
  "calls s = map fst (trace s)"

fun printed :: "call list \<Rightarrow> string" where
  "printed [] = []"
| "printed (printf str # cs) = str @ printed cs"
| "printed (c # cs) = printed cs"

definition console :: "state \<Rightarrow> string" where
  "console s = printed (calls s)"

text \<open>What the program cannot continue from: a division by zero, and a read of
  \<^verbatim>\<open>OUTPUT_FORMAT_STR\<close> outside its three elements.\<close>

datatype error = DivisionByZero | ArrayIndexOutOfBounds

text \<open>The parts of the platform that are not in the repository: the value of the driver's
  macro \<^verbatim>\<open>CY_SAR2_INT_GRP_DONE\<close>, and the value of the C expression
  \<^verbatim>\<open>(uint8_t)(log(averageCount) / log(2))\<close>, which the C library computes in
  double precision from the \<^verbatim>\<open>int32_t\<close> argument.\<close>

record platform =
  CY_SAR2_INT_GRP_DONE :: uint32_t
  log2_uint8 :: "int32_t \<Rightarrow> uint8_t"

section \<open>Console formatting\<close>

definition CR :: char where
  "CR = CHR 0x0D"

definition LF :: char where
  "LF = CHR 0x0A"

definition ESC :: char where
  "ESC = CHR 0x1B"

definition digit_char :: "nat \<Rightarrow> char" where
  "digit_char d = ''0123456789'' ! d"

text \<open>\<^verbatim>\<open>%u\<close>: an unsigned number in decimal, no padding.\<close>

fun dec_nat :: "nat \<Rightarrow> string" where
  "dec_nat n = (if n < 10 then [digit_char n] else dec_nat (n div 10) @ [digit_char (n mod 10)])"

declare dec_nat.simps [simp del]

text \<open>\<^verbatim>\<open>%d\<close>: a signed number in decimal.\<close>

definition dec_int :: "int \<Rightarrow> string" where
  "dec_int i = (if i < 0 then CHR ''-'' # dec_nat (nat (- i)) else dec_nat (nat i))"

section \<open>\<^verbatim>\<open>configure_SAR_ADC\<close>\<close>

definition configure_SAR_ADC :: "platform \<Rightarrow> int32_t \<Rightarrow> int32_t \<Rightarrow> state \<Rightarrow> state" where
  "configure_SAR_ADC p outputFormat averageCount_arg s0 =
     (let s1 =
        (if g_outputFormat s0 \<noteq> outputFormat \<or> g_averageCount s0 \<noteq> averageCount_arg then
           let sa = do_call Cy_SAR2_DeInit s0;
               sb = sa\<lparr>CE_SAR2_AN0_config :=
                      (CE_SAR2_AN0_config sa)\<lparr>rightShift := log2_uint8 p averageCount_arg\<rparr>\<rparr>;
               sc = sb\<lparr>CE_SAR2_AN0_config :=
                      (CE_SAR2_AN0_config sb)\<lparr>averageCount := ucast averageCount_arg\<rparr>\<rparr>;
               sd =
                 (if outputFormat = UNSIGNED_RIGHT_ALIGNED then
                    sc\<lparr>CE_SAR2_AN0_config := (CE_SAR2_AN0_config sc)
                         \<lparr>resultAlignment := CY_SAR2_RESULT_ALIGNMENT_RIGHT,
                          signExtention := CY_SAR2_SIGN_EXTENTION_UNSIGNED\<rparr>\<rparr>
                  else if outputFormat = SIGNED_RIGHT_ALIGNED then
                    sc\<lparr>CE_SAR2_AN0_config := (CE_SAR2_AN0_config sc)
                         \<lparr>resultAlignment := CY_SAR2_RESULT_ALIGNMENT_RIGHT,
                          signExtention := CY_SAR2_SIGN_EXTENTION_SIGNED\<rparr>\<rparr>
                  else
                    sc\<lparr>CE_SAR2_AN0_config := (CE_SAR2_AN0_config sc)
                         \<lparr>resultAlignment := CY_SAR2_RESULT_ALIGNMENT_LEFT,
                          signExtention := CY_SAR2_SIGN_EXTENTION_UNSIGNED\<rparr>\<rparr>);
               se = do_call Cy_SAR2_Init sd;
               sf = do_call (Cy_SAR2_SetReferenceBufferMode CY_SAR2_REF_BUF_MODE_ON) se;
               sg = do_call (Cy_SAR2_Channel_SetInterruptMask CE_SAR2_AN0_IDX
                               (CY_SAR2_INT_GRP_DONE p)) sf;
               sh = do_call Cy_SysInt_Init sg;
               si = do_call (NVIC_SetPriority 2) sh
           in do_call NVIC_EnableIRQ si
         else s0);
         s2 = s1\<lparr>g_outputFormat := outputFormat\<rparr>;
         s3 = s2\<lparr>g_averageCount := averageCount_arg\<rparr>
     in do_call (Cy_SAR2_Channel_SoftwareTrigger CE_SAR2_VBG_IDX) s3)"

section \<open>\<^verbatim>\<open>handle_SAR_ADC_IRQ\<close>\<close>

text \<open>What the hardware hands to one run of the handler: the interrupt status of channel
  AN0 and the two result registers, as the 32-bit values the driver returns.\<close>

record irq_inputs =
  intr_status :: uint32_t
  result_VBG :: uint32_t
  result_AN0 :: uint32_t

text \<open>Lines 216 to 238: the local \<^verbatim>\<open>resultAN0\<close> computed from \<^verbatim>\<open>resultAN0_raw\<close> under
  the active output format. The arithmetic is that of \<^verbatim>\<open>uint16_t\<close>.\<close>

definition resultAN0 :: "int32_t \<Rightarrow> uint16_t \<Rightarrow> uint16_t" where
  "resultAN0 outputFormat resultAN0_raw =
     (if outputFormat = SIGNED_RIGHT_ALIGNED then
        (let r = resultAN0_raw AND 0xFFF
         in if r AND 0x800 \<noteq> 0 then r - 0x800 else r + 0x800)
      else if outputFormat = LEFT_ALIGNED then
        drop_bit 4 resultAN0_raw AND 0xFFF
      else resultAN0_raw)"

text \<open>Line 243: \<^verbatim>\<open>((uint32_t)resultAN0 * BAND_GAP_MV) / (uint32_t)resultVBG\<close>, in
  \<^verbatim>\<open>uint32_t\<close>. The source has no test of the divisor.\<close>

definition potentiometer_voltage :: "uint16_t \<Rightarrow> uint16_t \<Rightarrow> error + uint32_t" where
  "potentiometer_voltage result resultVBG =
     (if (ucast resultVBG :: uint32_t) = 0 then Inl DivisionByZero
      else Inr ((ucast result * BAND_GAP_MV) div ucast resultVBG))"

text \<open>\<^verbatim>\<open>OUTPUT_FORMAT_STR[g_outputFormat]\<close> with a signed index.\<close>

definition OUTPUT_FORMAT_STR_at :: "int32_t \<Rightarrow> error + string" where
  "OUTPUT_FORMAT_STR_at i =
     (if 0 \<le> sint i \<and> sint i < sint FORMAT_NUM then Inr (OUTPUT_FORMAT_STR ! nat (sint i))
      else Inl ArrayIndexOutOfBounds)"

definition handle_SAR_ADC_IRQ :: "platform \<Rightarrow> irq_inputs \<Rightarrow> state \<Rightarrow> error + state" where
  "handle_SAR_ADC_IRQ p hw s0 =
     (let s1 = do_call (Cy_SAR2_Channel_GetInterruptStatus CE_SAR2_AN0_IDX) s0;
          intr = intr_status hw;
          s2 = do_call (Cy_SAR2_Channel_ClearInterrupt CE_SAR2_AN0_IDX intr) s1
      in if intr = CY_SAR2_INT_GRP_DONE p then
           (let s3 = do_call (Cy_SAR2_Channel_GetResult CE_SAR2_VBG_IDX) s2;
                resultVBG = (ucast (result_VBG hw) :: uint16_t);
                s4 = do_call (Cy_SAR2_Channel_GetResult CE_SAR2_AN0_IDX) s3;
                resultAN0_raw = (ucast (result_AN0 hw) :: uint16_t);
                result = resultAN0 (g_outputFormat s4) resultAN0_raw
            in case OUTPUT_FORMAT_STR_at (g_outputFormat s4) of
                 Inl e \<Rightarrow> Inl e
               | Inr label \<Rightarrow>
                  (let s5 = do_call (printf (''Output format: '' @ label @ [CR, LF] @
                                       ''Average count: '' @ dec_int (sint (g_averageCount s4)) @
                                       [CR, LF])) s4;
                       s6 = do_call (printf (''Conversion result raw value: 0x'' @
                                       dec_nat (unat resultAN0_raw) @ [CR, LF])) s5
                   in case potentiometer_voltage result resultVBG of
                        Inl e \<Rightarrow> Inl e
                      | Inr mV \<Rightarrow>
                         (let s7 = do_call (printf (''Potentiometer voltage: '' @
                                              dec_nat (unat mV) @ ''mV'' @ [CR, LF])) s6;
                              s8 = do_call (printf (ESC # ''[4F'')) s7
                          in Inr (configure_SAR_ADC p (g_nextOutputFormat s8)
                                    (g_nextAverageCount s8) s8))))
         else Inr s2)"

section \<open>The loop of \<^verbatim>\<open>main\<close>\<close>

text \<open>The initialisers of the four globals (lines 78 to 81). The channel configuration is
  generated outside the repository and is a parameter.\<close>

definition startup :: "cy_stc_sar2_channel_config_t \<Rightarrow> state" where
  "startup cfg =
     \<lparr>g_nextOutputFormat = UNSIGNED_RIGHT_ALIGNED, g_nextAverageCount = 1,
      g_outputFormat = - 1, g_averageCount = - 1,
      CE_SAR2_AN0_config = cfg, trace = []\<rparr>"

text \<open>One turn of the \<^verbatim>\<open>for (;;)\<close> loop (lines 159 to 182). The argument is what
  \<^verbatim>\<open>Cy_SCB_UART_Get\<close> returned; the source keeps its low byte. The shifts are those of
  \<^verbatim>\<open>int32_t\<close>, and the test after the increment is a signed comparison.\<close>

definition main_loop_body :: "uint32_t \<Rightarrow> state \<Rightarrow> state" where
  "main_loop_body rx s0 =
     (let s1 = do_call Cy_SCB_UART_Get s0;
          uartReadValue = (ucast rx :: uint8_t)
      in if uartReadValue = of_char CHR ''a'' \<or> uartReadValue = of_char CHR ''d'' then
           (if uartReadValue = of_char CHR ''a'' \<and> g_nextAverageCount s1 \<noteq> AVERAGE_COUNT_MIN then
              s1\<lparr>g_nextAverageCount := signed_drop_bit 1 (g_nextAverageCount s1)\<rparr>
            else if uartReadValue = of_char CHR ''d'' \<and> g_nextAverageCount s1 \<noteq> AVERAGE_COUNT_MAX then
              s1\<lparr>g_nextAverageCount := push_bit 1 (g_nextAverageCount s1)\<rparr>
            else s1)
         else if uartReadValue = of_char CHR ''s'' then
           (let s2 = s1\<lparr>g_nextOutputFormat := g_nextOutputFormat s1 + 1\<rparr>
            in if LEFT_ALIGNED <s g_nextOutputFormat s2 then
                 s2\<lparr>g_nextOutputFormat := UNSIGNED_RIGHT_ALIGNED\<rparr>
               else s2)
         else s1)"

text \<open>The loop never ends; a run of it over the values read so far.\<close>

fun main_loop :: "uint32_t list \<Rightarrow> state \<Rightarrow> state" where
  "main_loop [] s = s"
| "main_loop (rx # rxs) s = main_loop rxs (main_loop_body rx s)"

section \<open>The table of the specification\<close>

text \<open>The specification's table from output format to hardware parameters, in its own
  words: unsigned right-aligned is right and unsigned, signed right-aligned is right and
  signed, left-aligned is left and unsigned. It says nothing of any other value.\<close>

definition spec_format_table ::
  "int32_t \<Rightarrow> (cy_en_sar2_result_alignment_t \<times> cy_en_sar2_sign_extention_t) option" where
  "spec_format_table f =
     (if f = UNSIGNED_RIGHT_ALIGNED then
        Some (CY_SAR2_RESULT_ALIGNMENT_RIGHT, CY_SAR2_SIGN_EXTENTION_UNSIGNED)
      else if f = SIGNED_RIGHT_ALIGNED then
        Some (CY_SAR2_RESULT_ALIGNMENT_RIGHT, CY_SAR2_SIGN_EXTENTION_SIGNED)
      else if f = LEFT_ALIGNED then
        Some (CY_SAR2_RESULT_ALIGNMENT_LEFT, CY_SAR2_SIGN_EXTENTION_UNSIGNED)
      else None)"

section \<open>Sample inputs\<close>

text \<open>A platform to evaluate the model on: group-done is bit 0 of the interrupt status and
  the right shift is the position of the highest set bit of the count.\<close>

fun ilog2 :: "nat \<Rightarrow> nat" where
  "ilog2 n = (if n < 2 then 0 else Suc (ilog2 (n div 2)))"

declare ilog2.simps [simp del]

definition sample_platform :: platform where
  "sample_platform =
     \<lparr>CY_SAR2_INT_GRP_DONE = 1,
      log2_uint8 = (\<lambda>c. word_of_nat (ilog2 (unat c)))\<rparr>"

definition sample_config :: cy_stc_sar2_channel_config_t where
  "sample_config =
     \<lparr>rightShift = 0, averageCount = 1,
      resultAlignment = CY_SAR2_RESULT_ALIGNMENT_RIGHT,
      signExtention = CY_SAR2_SIGN_EXTENTION_UNSIGNED\<rparr>"

text \<open>A state in which the converter has been configured once from the initial memory.
  With the format 0 and the count 1 it is the state after the call on line 155 of
  \<^verbatim>\<open>main\<close>, the banner left aside.\<close>

definition configured :: "int32_t \<Rightarrow> int32_t \<Rightarrow> state" where
  "configured f c = configure_SAR_ADC sample_platform f c (startup sample_config)"

section \<open>Basic facts\<close>

lemmas enum_defs =
  UNSIGNED_RIGHT_ALIGNED_def SIGNED_RIGHT_ALIGNED_def LEFT_ALIGNED_def FORMAT_NUM_def

lemma do_call_fields [simp]:
  "g_nextOutputFormat (do_call c s) = g_nextOutputFormat s"
  "g_nextAverageCount (do_call c s) = g_nextAverageCount s"
  "g_outputFormat (do_call c s) = g_outputFormat s"
  "g_averageCount (do_call c s) = g_averageCount s"
  "CE_SAR2_AN0_config (do_call c s) = CE_SAR2_AN0_config s"
  "trace (do_call c s) = trace s @ [(c, memory.truncate s)]"
  by (simp_all add: do_call_def)

lemma truncate_do_call [simp]: "memory.truncate (do_call c s) = memory.truncate s"
  by (simp add: do_call_def memory.truncate_def)

lemma truncate_upd [simp]:
  "memory.truncate (s\<lparr>trace := t\<rparr>) = memory.truncate s"
  "memory.truncate (s\<lparr>g_outputFormat := f\<rparr>) = (memory.truncate s)\<lparr>g_outputFormat := f\<rparr>"
  "memory.truncate (s\<lparr>g_averageCount := c\<rparr>) = (memory.truncate s)\<lparr>g_averageCount := c\<rparr>"
  "memory.truncate (s\<lparr>g_nextOutputFormat := f\<rparr>) = (memory.truncate s)\<lparr>g_nextOutputFormat := f\<rparr>"
  "memory.truncate (s\<lparr>g_nextAverageCount := c\<rparr>) = (memory.truncate s)\<lparr>g_nextAverageCount := c\<rparr>"
  "memory.truncate (s\<lparr>CE_SAR2_AN0_config := cfg\<rparr>) = (memory.truncate s)\<lparr>CE_SAR2_AN0_config := cfg\<rparr>"
  by (simp_all add: memory.truncate_def)

lemma truncate_fields [simp]:
  "g_nextOutputFormat (memory.truncate s) = g_nextOutputFormat s"
  "g_nextAverageCount (memory.truncate s) = g_nextAverageCount s"
  "g_outputFormat (memory.truncate s) = g_outputFormat s"
  "g_averageCount (memory.truncate s) = g_averageCount s"
  "CE_SAR2_AN0_config (memory.truncate s) = CE_SAR2_AN0_config s"
  by (simp_all add: memory.truncate_def)

lemma printed_append: "printed (xs @ ys) = printed xs @ printed ys"
  by (induction xs rule: printed.induct) simp_all

lemma calls_do_call: "calls (do_call c s) = calls s @ [c]"
  by (simp add: calls_def)

lemma console_do_call:
  "console (do_call c s) = console s @ printed [c]"
  by (simp add: console_def calls_do_call printed_append)

lemma configure_same:
  assumes "g_outputFormat s = f" "g_averageCount s = c"
  shows "configure_SAR_ADC p f c s = do_call (Cy_SAR2_Channel_SoftwareTrigger CE_SAR2_VBG_IDX) s"
  using assms by (simp add: configure_SAR_ADC_def Let_def)

lemma configure_diff:
  assumes "g_outputFormat s \<noteq> f \<or> g_averageCount s \<noteq> c"
  shows "configure_SAR_ADC p f c s =
     (let m0 = memory.truncate s;
          cfg = (CE_SAR2_AN0_config s)
            \<lparr>rightShift := log2_uint8 p c, averageCount := ucast c,
             resultAlignment :=
               (if f = UNSIGNED_RIGHT_ALIGNED \<or> f = SIGNED_RIGHT_ALIGNED
                then CY_SAR2_RESULT_ALIGNMENT_RIGHT else CY_SAR2_RESULT_ALIGNMENT_LEFT),
             signExtention :=
               (if f = SIGNED_RIGHT_ALIGNED
                then CY_SAR2_SIGN_EXTENTION_SIGNED else CY_SAR2_SIGN_EXTENTION_UNSIGNED)\<rparr>;
          m1 = m0\<lparr>CE_SAR2_AN0_config := cfg\<rparr>;
          m2 = m1\<lparr>g_outputFormat := f, g_averageCount := c\<rparr>
      in s\<lparr>g_outputFormat := f, g_averageCount := c,
           CE_SAR2_AN0_config := cfg,
           trace := trace s @
            [(Cy_SAR2_DeInit, m0),
             (Cy_SAR2_Init, m1),
             (Cy_SAR2_SetReferenceBufferMode CY_SAR2_REF_BUF_MODE_ON, m1),
             (Cy_SAR2_Channel_SetInterruptMask CE_SAR2_AN0_IDX (CY_SAR2_INT_GRP_DONE p), m1),
             (Cy_SysInt_Init, m1),
             (NVIC_SetPriority 2, m1),
             (NVIC_EnableIRQ, m1),
             (Cy_SAR2_Channel_SoftwareTrigger CE_SAR2_VBG_IDX, m2)]\<rparr>)"
  using assms
  by (simp add: configure_SAR_ADC_def Let_def do_call_def enum_defs)

lemma calls_configure:
  "calls (configure_SAR_ADC p f c s) =
     calls s @
     (if g_outputFormat s = f \<and> g_averageCount s = c then []
      else [Cy_SAR2_DeInit, Cy_SAR2_Init,
            Cy_SAR2_SetReferenceBufferMode CY_SAR2_REF_BUF_MODE_ON,
            Cy_SAR2_Channel_SetInterruptMask CE_SAR2_AN0_IDX (CY_SAR2_INT_GRP_DONE p),
            Cy_SysInt_Init, NVIC_SetPriority 2, NVIC_EnableIRQ]) @
     [Cy_SAR2_Channel_SoftwareTrigger CE_SAR2_VBG_IDX]"
proof (cases "g_outputFormat s = f \<and> g_averageCount s = c")
  case True
  then show ?thesis by (simp add: configure_same calls_do_call)
next
  case False
  then have "g_outputFormat s \<noteq> f \<or> g_averageCount s \<noteq> c" by simp
  from configure_diff [OF this, of p] False show ?thesis
    by (simp add: calls_def Let_def)
qed

lemma console_configure: "console (configure_SAR_ADC p f c s) = console s"
  by (simp add: console_def calls_configure printed_append)

lemma configured_fields:
  "g_outputFormat (configured f c) = f"
  "g_averageCount (configured f c) = c"
  "g_nextOutputFormat (configured f c) = UNSIGNED_RIGHT_ALIGNED"
  "g_nextAverageCount (configured f c) = 1"
  by (simp_all add: configured_def configure_SAR_ADC_def Let_def startup_def)

lemma ilog2_8: "ilog2 8 = 3"
  by (simp add: ilog2.simps)

subsection \<open>Masks and bits of a 16-bit result\<close>

lemma and_FFF: "raw AND (0xFFF :: uint16_t) = take_bit 12 raw"
  by (simp add: take_bit_eq_mask mask_eq_exp_minus_1)

lemma unat_and_FFF: "unat (raw AND (0xFFF :: uint16_t)) = unat raw mod 4096"
  by (simp add: and_FFF unsigned_take_bit_eq take_bit_eq_mod unat_mod)

lemma and_800: "(r AND (0x800 :: uint16_t) \<noteq> 0) = bit r 11"
  using and_exp_eq_0_iff_not_bit [of r 11] by simp

lemma bit11_take: "bit (take_bit 12 (raw :: uint16_t)) 11 = bit raw 11"
  by (simp add: bit_take_bit_iff)

lemma bit11_unat: "bit (raw :: uint16_t) 11 = (2048 \<le> unat raw mod 4096)"
proof -
  have "bit raw 11 = bit (unat raw) 11"
    by (simp add: bit_unsigned_iff)
  also have "\<dots> = odd (unat raw div 2048)"
    by (simp add: bit_iff_odd)
  also have "\<dots> = (2048 \<le> unat raw mod 4096)"
  proof -
    have split: "unat raw mod (2048 * 2) = 2048 * (unat raw div 2048 mod 2) + unat raw mod 2048"
      by (rule mod_mult2_eq)
    have low: "unat raw mod 2048 < 2048" by simp
    show ?thesis
    proof (cases "odd (unat raw div 2048)")
      case True
      then have "unat raw div 2048 mod 2 = 1" by (simp add: odd_iff_mod_2_eq_one)
      with split True show ?thesis by simp
    next
      case False
      then have "unat raw div 2048 mod 2 = 0" by simp
      with split low False show ?thesis by simp
    qed
  qed
  finally show ?thesis .
qed

lemma resultAN0_signed:
  "unat (resultAN0 SIGNED_RIGHT_ALIGNED raw) =
     (if bit raw 11 then unat raw mod 4096 - 2048 else unat raw mod 4096 + 2048)"
proof -
  let ?r = "raw AND 0xFFF"
  have m: "unat ?r = unat raw mod 4096" by (rule unat_and_FFF)
  have b: "(?r AND 0x800 \<noteq> 0) = bit raw 11"
    by (simp only: and_800 and_FFF bit11_take)
  show ?thesis
  proof (cases "bit raw 11")
    case True
    then have "2048 \<le> unat ?r" using bit11_unat m by simp
    then have "(0x800 :: uint16_t) \<le> ?r" by (simp add: word_le_nat_alt)
    from unat_sub [OF this] have "unat (?r - 0x800) = unat ?r - 2048" by simp
    with True b m show ?thesis by (simp add: resultAN0_def Let_def)
  next
    case False
    then have "unat ?r < 2048" using bit11_unat m by simp
    then have "unat ?r + unat (0x800 :: uint16_t) < 2 ^ LENGTH(16)" by simp
    from unat_add_lem [THEN iffD1, OF this] have "unat (?r + 0x800) = unat ?r + 2048" by simp
    with False b m show ?thesis by (simp add: resultAN0_def Let_def)
  qed
qed

lemma resultAN0_left: "unat (resultAN0 LEFT_ALIGNED raw) = unat raw div 16 mod 4096"
  by (simp add: resultAN0_def enum_defs and_FFF unsigned_take_bit_eq take_bit_eq_mod
      unsigned_drop_bit_eq drop_bit_eq_div unat_mod unat_div)

subsection \<open>The voltage expression\<close>

lemma unat_ucast_16_32: "unat (ucast (w :: uint16_t) :: uint32_t) = unat w"
proof -
  have "unat w < 65536" using unsigned_less [of w] by simp
  then have "unat w < 2 ^ 32" by simp
  then show ?thesis
    by (simp add: unsigned_ucast_eq take_bit_nat_eq_self)
qed

lemma ucast_16_32_eq_0: "((ucast (w :: uint16_t) :: uint32_t) = 0) = (w = 0)"
proof -
  have "((ucast w :: uint32_t) = 0) = (unat (ucast w :: uint32_t) = 0)"
    by (simp add: unsigned_eq_0_iff)
  also have "\<dots> = (w = 0)"
    by (simp add: unat_ucast_16_32 unsigned_eq_0_iff)
  finally show ?thesis .
qed

lemma unat_times_900: "unat ((ucast (t :: uint16_t) :: uint32_t) * 900) = unat t * 900"
proof -
  have "unat t < 65536" using unsigned_less [of t] by simp
  then have "unat (ucast t :: uint32_t) * unat (900 :: uint32_t) < 2 ^ LENGTH(32)"
    by (simp add: unat_ucast_16_32)
  from unat_mult_lem [THEN iffD1, OF this] show ?thesis
    by (simp add: unat_ucast_16_32)
qed

lemma unat_voltage:
  "unat ((ucast (t :: uint16_t) * 900) div (ucast (r :: uint16_t) :: uint32_t)) =
     unat t * 900 div unat r"
  by (simp add: unat_div unat_times_900 unat_ucast_16_32)

lemma voltage_nonzero:
  assumes "r \<noteq> 0"
  shows "potentiometer_voltage t r = Inr ((ucast t * 900) div ucast r)"
  using assms by (simp add: potentiometer_voltage_def BAND_GAP_MV_def ucast_16_32_eq_0)

lemma voltage_zero: "potentiometer_voltage t 0 = Inl DivisionByZero"
  by (simp add: potentiometer_voltage_def)

subsection \<open>One turn of the loop\<close>

lemma body_next_count:
  "g_nextAverageCount (main_loop_body rx s) =
     (let c = g_nextAverageCount s in
      if (ucast rx :: uint8_t) = 0x61 \<and> c \<noteq> 1 then signed_drop_bit 1 c
      else if (ucast rx :: uint8_t) = 0x64 \<and> c \<noteq> 256 then push_bit 1 c
      else c)"
  by (simp add: main_loop_body_def Let_def AVERAGE_COUNT_MIN_def AVERAGE_COUNT_MAX_def)

lemma body_next_format:
  "g_nextOutputFormat (main_loop_body rx s) =
     (let f = g_nextOutputFormat s in
      if (ucast rx :: uint8_t) = 0x73 then (if 2 <s f + 1 then 0 else f + 1) else f)"
  by (simp add: main_loop_body_def Let_def enum_defs)

lemma body_key_a:
  "(ucast rx :: uint8_t) = 0x61 \<Longrightarrow>
   g_nextAverageCount (main_loop_body rx s) =
     (if g_nextAverageCount s \<noteq> 1 then signed_drop_bit 1 (g_nextAverageCount s)
      else g_nextAverageCount s)"
  by (simp add: body_next_count Let_def)

lemma body_key_d:
  "(ucast rx :: uint8_t) = 0x64 \<Longrightarrow>
   g_nextAverageCount (main_loop_body rx s) =
     (if g_nextAverageCount s \<noteq> 256 then push_bit 1 (g_nextAverageCount s)
      else g_nextAverageCount s)"
  by (simp add: body_next_count Let_def)

lemma body_count_ok:
  "g_nextAverageCount s \<in> {1, 2, 4, 8, 16, 32, 64, 128, 256} \<Longrightarrow>
   g_nextAverageCount (main_loop_body rx s) \<in> {1, 2, 4, 8, 16, 32, 64, 128, 256}"
  unfolding body_next_count Let_def
  by (elim insertE emptyE) simp_all

lemma loop_count_ok:
  "g_nextAverageCount s \<in> {1, 2, 4, 8, 16, 32, 64, 128, 256} \<Longrightarrow>
   g_nextAverageCount (main_loop rxs s) \<in> {1, 2, 4, 8, 16, 32, 64, 128, 256}"
  by (induction rxs arbitrary: s) (simp_all add: body_count_ok del: insert_iff)

lemma count_ok_pow2:
  assumes "(c :: int32_t) \<in> {1, 2, 4, 8, 16, 32, 64, 128, 256}"
  shows "\<exists>k\<le>8. sint c = 2 ^ k"
proof -
  have "sint c = 2 ^ 0 \<or> sint c = 2 ^ 1 \<or> sint c = 2 ^ 2 \<or> sint c = 2 ^ 3 \<or> sint c = 2 ^ 4 \<or>
        sint c = 2 ^ 5 \<or> sint c = 2 ^ 6 \<or> sint c = 2 ^ 7 \<or> sint c = 2 ^ (8::nat)"
    using assms by (elim insertE emptyE) simp_all
  then show ?thesis
    by (elim disjE) (rule exI [of _ "0::nat"], simp, rule exI [of _ "1::nat"], simp,
      rule exI [of _ "2::nat"], simp, rule exI [of _ "3::nat"], simp,
      rule exI [of _ "4::nat"], simp, rule exI [of _ "5::nat"], simp,
      rule exI [of _ "6::nat"], simp, rule exI [of _ "7::nat"], simp,
      rule exI [of _ "8::nat"], simp)
qed

lemma count_step_a:
  assumes "(c :: int32_t) \<in> {1, 2, 4, 8, 16, 32, 64, 128, 256}"
  shows "sint (if c \<noteq> 1 then signed_drop_bit 1 c else c) = (if sint c = 1 then 1 else sint c div 2)"
  using assms by (elim insertE emptyE) simp_all

lemma count_step_d:
  assumes "(c :: int32_t) \<in> {1, 2, 4, 8, 16, 32, 64, 128, 256}"
  shows "sint (if c \<noteq> 256 then push_bit 1 c else c) = (if sint c = 256 then 256 else 2 * sint c)"
  using assms by (elim insertE emptyE) simp_all

lemma body_key_s:
  "(ucast rx :: uint8_t) = 0x73 \<Longrightarrow>
   g_nextOutputFormat (main_loop_body rx s) =
     (if 2 <s g_nextOutputFormat s + 1 then 0 else g_nextOutputFormat s + 1)"
  by (simp add: body_next_format Let_def)

subsection \<open>The interrupt handler\<close>

lemma handle_other:
  assumes "intr_status hw \<noteq> CY_SAR2_INT_GRP_DONE p"
  shows "handle_SAR_ADC_IRQ p hw s =
     Inr (do_call (Cy_SAR2_Channel_ClearInterrupt CE_SAR2_AN0_IDX (intr_status hw))
           (do_call (Cy_SAR2_Channel_GetInterruptStatus CE_SAR2_AN0_IDX) s))"
  using assms by (simp add: handle_SAR_ADC_IRQ_def Let_def)

lemma handle_group_done:
  assumes "intr_status hw = CY_SAR2_INT_GRP_DONE p"
    and "OUTPUT_FORMAT_STR_at (g_outputFormat s) = Inr label"
  shows "handle_SAR_ADC_IRQ p hw s =
     (case potentiometer_voltage (resultAN0 (g_outputFormat s) (ucast (result_AN0 hw)))
             (ucast (result_VBG hw)) of
        Inl e \<Rightarrow> Inl e
      | Inr mV \<Rightarrow>
          Inr (configure_SAR_ADC p (g_nextOutputFormat s) (g_nextAverageCount s)
            (do_call (printf (ESC # ''[4F''))
            (do_call (printf (''Potentiometer voltage: '' @ dec_nat (unat mV) @ ''mV'' @ [CR, LF]))
            (do_call (printf (''Conversion result raw value: 0x'' @
                        dec_nat (unat (ucast (result_AN0 hw) :: uint16_t)) @ [CR, LF]))
            (do_call (printf (''Output format: '' @ label @ [CR, LF] @ ''Average count: '' @
                        dec_int (sint (g_averageCount s)) @ [CR, LF]))
            (do_call (Cy_SAR2_Channel_GetResult CE_SAR2_AN0_IDX)
            (do_call (Cy_SAR2_Channel_GetResult CE_SAR2_VBG_IDX)
            (do_call (Cy_SAR2_Channel_ClearInterrupt CE_SAR2_AN0_IDX (intr_status hw))
            (do_call (Cy_SAR2_Channel_GetInterruptStatus CE_SAR2_AN0_IDX) s))))))))))"
  using assms by (simp add: handle_SAR_ADC_IRQ_def Let_def split: sum.splits)

lemma format_label:
  assumes "f \<in> {UNSIGNED_RIGHT_ALIGNED, SIGNED_RIGHT_ALIGNED, LEFT_ALIGNED}"
  shows "OUTPUT_FORMAT_STR_at f = Inr (OUTPUT_FORMAT_STR ! nat (sint f))"
  using assms unfolding enum_defs OUTPUT_FORMAT_STR_at_def
  by (elim insertE emptyE) simp_all

lemma console_configured: "console (configured f c) = []"
  unfolding configured_def console_configure
  by (simp add: console_def calls_def startup_def)

lemma resultAN0_unsigned: "resultAN0 UNSIGNED_RIGHT_ALIGNED raw = raw"
  by (simp add: resultAN0_def enum_defs)

lemma handle_group_done_console:
  assumes "intr_status hw = CY_SAR2_INT_GRP_DONE p"
    and "OUTPUT_FORMAT_STR_at (g_outputFormat s) = Inr label"
  shows "map_sum id console (handle_SAR_ADC_IRQ p hw s) =
     (case potentiometer_voltage (resultAN0 (g_outputFormat s) (ucast (result_AN0 hw)))
             (ucast (result_VBG hw)) of
        Inl e \<Rightarrow> Inl e
      | Inr mV \<Rightarrow>
          Inr (console s @
               ''Output format: '' @ label @ [CR, LF] @
               ''Average count: '' @ dec_int (sint (g_averageCount s)) @ [CR, LF] @
               ''Conversion result raw value: 0x'' @
                  dec_nat (unat (ucast (result_AN0 hw) :: uint16_t)) @ [CR, LF] @
               ''Potentiometer voltage: '' @ dec_nat (unat mV) @ ''mV'' @ [CR, LF] @
               ESC # ''[4F''))"
  by (simp add: handle_group_done [OF assms] console_configure console_do_call
      split: sum.splits)

section \<open>The claims\<close>

text \<open>
  C1. On every group-done interrupt, with an active format that is one of the three
  enumerators, the handler computes the voltage it prints from the raw code of channel AN0
  transformed according to the active output format \<open>g_outputFormat\<close>, and prints the raw
  code itself on the line before. Under \<open>SIGNED_RIGHT_ALIGNED\<close> the transformed code is the
  raw code cut to its low 12 bits, less 0x800 when bit 11 is set and plus 0x800 when it is
  clear, with no wrap-around in either case; the raw code 0x800 gives 0. Under
  \<open>LEFT_ALIGNED\<close> it is the raw code shifted right by 4 and cut to 12 bits; the raw code
  0x8000 gives 0x800. Under \<open>UNSIGNED_RIGHT_ALIGNED\<close> it is the raw code as it is.
\<close>

theorem handle_SAR_ADC_IRQ_result_by_active_format:
  assumes "intr_status hw = CY_SAR2_INT_GRP_DONE p"
    and "g_outputFormat s \<in> {UNSIGNED_RIGHT_ALIGNED, SIGNED_RIGHT_ALIGNED, LEFT_ALIGNED}"
  shows "let raw = (ucast (result_AN0 hw) :: uint16_t);
             t = resultAN0 (g_outputFormat s) raw
         in map_sum id console (handle_SAR_ADC_IRQ p hw s) =
              (case potentiometer_voltage t (ucast (result_VBG hw)) of
                 Inl e \<Rightarrow> Inl e
               | Inr mV \<Rightarrow>
                   Inr (console s @
                     ''Output format: '' @ OUTPUT_FORMAT_STR ! nat (sint (g_outputFormat s)) @
                       [CR, LF] @
                     ''Average count: '' @ dec_int (sint (g_averageCount s)) @ [CR, LF] @
                     ''Conversion result raw value: 0x'' @ dec_nat (unat raw) @ [CR, LF] @
                     ''Potentiometer voltage: '' @ dec_nat (unat mV) @ ''mV'' @ [CR, LF] @
                     ESC # ''[4F'')) \<and>
            (g_outputFormat s = SIGNED_RIGHT_ALIGNED \<longrightarrow>
               unat t = (if bit raw 11 then unat raw mod 4096 - 2048
                         else unat raw mod 4096 + 2048) \<and>
               (raw = 0x800 \<longrightarrow> t = 0)) \<and>
            (g_outputFormat s = LEFT_ALIGNED \<longrightarrow>
               t = drop_bit 4 raw AND 0xFFF \<and>
               unat t = unat raw div 16 mod 4096 \<and>
               (raw = 0x8000 \<longrightarrow> t = 0x800)) \<and>
            (g_outputFormat s = UNSIGNED_RIGHT_ALIGNED \<longrightarrow> t = raw)"
proof -
  let ?raw = "ucast (result_AN0 hw) :: uint16_t"
  have con: "map_sum id console (handle_SAR_ADC_IRQ p hw s) =
     (case potentiometer_voltage (resultAN0 (g_outputFormat s) ?raw) (ucast (result_VBG hw)) of
        Inl e \<Rightarrow> Inl e
      | Inr mV \<Rightarrow>
          Inr (console s @
               ''Output format: '' @ OUTPUT_FORMAT_STR ! nat (sint (g_outputFormat s)) @ [CR, LF] @
               ''Average count: '' @ dec_int (sint (g_averageCount s)) @ [CR, LF] @
               ''Conversion result raw value: 0x'' @ dec_nat (unat ?raw) @ [CR, LF] @
               ''Potentiometer voltage: '' @ dec_nat (unat mV) @ ''mV'' @ [CR, LF] @
               ESC # ''[4F''))"
    by (rule handle_group_done_console [OF assms(1) format_label [OF assms(2)]])
  have sg: "unat (resultAN0 SIGNED_RIGHT_ALIGNED ?raw) =
       (if bit ?raw 11 then unat ?raw mod 4096 - 2048 else unat ?raw mod 4096 + 2048)"
    by (rule resultAN0_signed)
  have sg0: "resultAN0 SIGNED_RIGHT_ALIGNED 0x800 = 0"
    by (simp add: resultAN0_def enum_defs)
  have lf: "resultAN0 LEFT_ALIGNED ?raw = drop_bit 4 ?raw AND 0xFFF"
    by (simp add: resultAN0_def enum_defs)
  have lfu: "unat (resultAN0 LEFT_ALIGNED ?raw) = unat ?raw div 16 mod 4096"
    by (rule resultAN0_left)
  have lf0: "resultAN0 LEFT_ALIGNED 0x8000 = 0x800"
    by (simp add: resultAN0_def enum_defs)
  have un: "resultAN0 UNSIGNED_RIGHT_ALIGNED ?raw = ?raw"
    by (rule resultAN0_unsigned)
  show ?thesis
    unfolding Let_def
  proof (intro conjI impI)
    show "map_sum id console (handle_SAR_ADC_IRQ p hw s) =
     (case potentiometer_voltage (resultAN0 (g_outputFormat s) ?raw) (ucast (result_VBG hw)) of
        Inl e \<Rightarrow> Inl e
      | Inr mV \<Rightarrow>
          Inr (console s @
               ''Output format: '' @ OUTPUT_FORMAT_STR ! nat (sint (g_outputFormat s)) @ [CR, LF] @
               ''Average count: '' @ dec_int (sint (g_averageCount s)) @ [CR, LF] @
               ''Conversion result raw value: 0x'' @ dec_nat (unat ?raw) @ [CR, LF] @
               ''Potentiometer voltage: '' @ dec_nat (unat mV) @ ''mV'' @ [CR, LF] @
               ESC # ''[4F''))"
      by (rule con)
  qed (simp_all only: sg sg0 lfu lf0 un, simp_all only: lf)
qed

theorem handle_SAR_ADC_IRQ_result_by_active_format_witness:
  "intr_status \<lparr>intr_status = 1, result_VBG = 0x400, result_AN0 = 0x800\<rparr> =
     CY_SAR2_INT_GRP_DONE sample_platform \<and>
   g_outputFormat (configured SIGNED_RIGHT_ALIGNED 1) = SIGNED_RIGHT_ALIGNED \<and>
   map_sum id console
     (handle_SAR_ADC_IRQ sample_platform
        \<lparr>intr_status = 1, result_VBG = 0x400, result_AN0 = 0x800\<rparr>
        (configured SIGNED_RIGHT_ALIGNED 1)) =
     Inr (''Output format: Signed/Right Aligned  '' @ [CR, LF] @
          ''Average count: 1'' @ [CR, LF] @
          ''Conversion result raw value: 0x2048'' @ [CR, LF] @
          ''Potentiometer voltage: 0mV'' @ [CR, LF] @
          ESC # ''[4F'') \<and>
   g_outputFormat (configured LEFT_ALIGNED 1) = LEFT_ALIGNED \<and>
   map_sum id console
     (handle_SAR_ADC_IRQ sample_platform
        \<lparr>intr_status = 1, result_VBG = 0x400, result_AN0 = 0x8000\<rparr>
        (configured LEFT_ALIGNED 1)) =
     Inr (''Output format: Left Aligned          '' @ [CR, LF] @
          ''Average count: 1'' @ [CR, LF] @
          ''Conversion result raw value: 0x32768'' @ [CR, LF] @
          ''Potentiometer voltage: 1800mV'' @ [CR, LF] @
          ESC # ''[4F'')"
proof -
  have h1: "intr_status \<lparr>intr_status = 1, result_VBG = 0x400, result_AN0 = a\<rparr> =
      CY_SAR2_INT_GRP_DONE sample_platform" for a
    by (simp add: sample_platform_def)
  have h2: "g_outputFormat (configured f 1) \<in>
      {UNSIGNED_RIGHT_ALIGNED, SIGNED_RIGHT_ALIGNED, LEFT_ALIGNED}"
    if "f = SIGNED_RIGHT_ALIGNED \<or> f = LEFT_ALIGNED" for f
    using that by (auto simp: configured_fields)
  have r1: "resultAN0 SIGNED_RIGHT_ALIGNED 0x800 = 0"
    by (simp add: resultAN0_def enum_defs)
  have r2: "resultAN0 LEFT_ALIGNED 0x8000 = 0x800"
    by (simp add: resultAN0_def enum_defs)
  have v1: "potentiometer_voltage 0 0x400 = Inr 0"
    by (simp add: potentiometer_voltage_def BAND_GAP_MV_def)
  have v2: "potentiometer_voltage 0x800 0x400 = Inr 1800"
    by (simp add: potentiometer_voltage_def BAND_GAP_MV_def)
  have l1: "OUTPUT_FORMAT_STR ! nat (sint SIGNED_RIGHT_ALIGNED) = ''Signed/Right Aligned  ''"
    by (simp add: OUTPUT_FORMAT_STR_def enum_defs)
  have l2: "OUTPUT_FORMAT_STR ! nat (sint LEFT_ALIGNED) = ''Left Aligned          ''"
    by (simp add: OUTPUT_FORMAT_STR_def enum_defs)
  show ?thesis
    using handle_SAR_ADC_IRQ_result_by_active_format [OF h1 [of "0x800"] h2 [of SIGNED_RIGHT_ALIGNED]]
      handle_SAR_ADC_IRQ_result_by_active_format [OF h1 [of "0x8000"] h2 [of LEFT_ALIGNED]] h1 [of "0x800"]
    by (simp add: Let_def configured_fields console_configured r1 r2 v1 v2 l1 l2
        dec_nat.simps dec_int_def digit_char_def)
qed

text \<open>
  C2. When \<^verbatim>\<open>configure_SAR_ADC\<close> is called with the format and the count that are
  already active, the memory (the active and pending configuration and the channel
  configuration structure) is left as it was and the only call made is the software trigger
  of the reference channel: no de-initialisation, no programming of the structure, no
  initialisation, no re-arming. In every invocation, equal or not, at least one call is
  made and the last one is the software trigger of the reference channel.
\<close>

theorem configure_SAR_ADC_unchanged_config:
  "(g_outputFormat s = f \<and> g_averageCount s = c \<longrightarrow>
      configure_SAR_ADC p f c s =
        s\<lparr>trace := trace s @
              [(Cy_SAR2_Channel_SoftwareTrigger CE_SAR2_VBG_IDX, memory.truncate s)]\<rparr>) \<and>
   length (calls s) < length (calls (configure_SAR_ADC p f c s)) \<and>
   last (calls (configure_SAR_ADC p f c s)) = Cy_SAR2_Channel_SoftwareTrigger CE_SAR2_VBG_IDX"
proof -
  have "configure_SAR_ADC p f c s =
        s\<lparr>trace := trace s @
              [(Cy_SAR2_Channel_SoftwareTrigger CE_SAR2_VBG_IDX, memory.truncate s)]\<rparr>"
    if "g_outputFormat s = f" "g_averageCount s = c"
    using that by (simp add: configure_same do_call_def)
  then show ?thesis
    by (simp add: calls_configure)
qed

theorem configure_SAR_ADC_unchanged_config_witness:
  "g_outputFormat (configured UNSIGNED_RIGHT_ALIGNED 4) = UNSIGNED_RIGHT_ALIGNED \<and>
   g_averageCount (configured UNSIGNED_RIGHT_ALIGNED 4) = 4 \<and>
   configure_SAR_ADC sample_platform UNSIGNED_RIGHT_ALIGNED 4 (configured UNSIGNED_RIGHT_ALIGNED 4) =
     (configured UNSIGNED_RIGHT_ALIGNED 4)
       \<lparr>trace := trace (configured UNSIGNED_RIGHT_ALIGNED 4) @
          [(Cy_SAR2_Channel_SoftwareTrigger CE_SAR2_VBG_IDX,
            memory.truncate (configured UNSIGNED_RIGHT_ALIGNED 4))]\<rparr>"
  using configure_SAR_ADC_unchanged_config [of "configured UNSIGNED_RIGHT_ALIGNED 4" UNSIGNED_RIGHT_ALIGNED 4 sample_platform]
  by (simp add: configured_fields)

text \<open>
  C3. When the requested format or count differs from the active one, the calls made are,
  first to last: de-initialisation, initialisation, reference buffer mode on, interrupt
  mask of channel AN0 set to group-done, interrupt registration, priority, enable, software
  trigger of the reference channel. The memory recorded with each call shows where the
  stores fall: the de-initialisation sees the old channel configuration; the
  initialisation and all later calls see the structure programmed with the right shift
  computed from the count, the count, and the alignment and sign handling of the
  specification's table; the re-arming calls still see the old active configuration, and
  the trigger sees the requested one adopted.
\<close>

theorem configure_SAR_ADC_changed_config:
  assumes "g_outputFormat s \<noteq> f \<or> g_averageCount s \<noteq> c"
    and "spec_format_table f = Some (alignment, sign)"
  shows "configure_SAR_ADC p f c s =
     (let m0 = memory.truncate s;
          cfg = (CE_SAR2_AN0_config s)
            \<lparr>rightShift := log2_uint8 p c, averageCount := ucast c,
             resultAlignment := alignment, signExtention := sign\<rparr>;
          m1 = m0\<lparr>CE_SAR2_AN0_config := cfg\<rparr>;
          m2 = m1\<lparr>g_outputFormat := f, g_averageCount := c\<rparr>
      in s\<lparr>g_outputFormat := f, g_averageCount := c,
           CE_SAR2_AN0_config := cfg,
           trace := trace s @
            [(Cy_SAR2_DeInit, m0),
             (Cy_SAR2_Init, m1),
             (Cy_SAR2_SetReferenceBufferMode CY_SAR2_REF_BUF_MODE_ON, m1),
             (Cy_SAR2_Channel_SetInterruptMask CE_SAR2_AN0_IDX (CY_SAR2_INT_GRP_DONE p), m1),
             (Cy_SysInt_Init, m1),
             (NVIC_SetPriority 2, m1),
             (NVIC_EnableIRQ, m1),
             (Cy_SAR2_Channel_SoftwareTrigger CE_SAR2_VBG_IDX, m2)]\<rparr>)"
proof -
  from assms(2) have
    "alignment = (if f = UNSIGNED_RIGHT_ALIGNED \<or> f = SIGNED_RIGHT_ALIGNED
                  then CY_SAR2_RESULT_ALIGNMENT_RIGHT else CY_SAR2_RESULT_ALIGNMENT_LEFT)"
    "sign = (if f = SIGNED_RIGHT_ALIGNED
             then CY_SAR2_SIGN_EXTENTION_SIGNED else CY_SAR2_SIGN_EXTENTION_UNSIGNED)"
    by (auto simp: spec_format_table_def enum_defs split: if_splits)
  with configure_diff [OF assms(1), of p] show ?thesis by simp
qed

theorem configure_SAR_ADC_changed_config_witness:
  "g_outputFormat (configured UNSIGNED_RIGHT_ALIGNED 1) \<noteq> SIGNED_RIGHT_ALIGNED \<and>
   spec_format_table SIGNED_RIGHT_ALIGNED =
     Some (CY_SAR2_RESULT_ALIGNMENT_RIGHT, CY_SAR2_SIGN_EXTENTION_SIGNED) \<and>
   calls (configure_SAR_ADC sample_platform SIGNED_RIGHT_ALIGNED 8
            (configured UNSIGNED_RIGHT_ALIGNED 1)) =
     calls (configured UNSIGNED_RIGHT_ALIGNED 1) @
       [Cy_SAR2_DeInit, Cy_SAR2_Init,
        Cy_SAR2_SetReferenceBufferMode CY_SAR2_REF_BUF_MODE_ON,
        Cy_SAR2_Channel_SetInterruptMask CE_SAR2_AN0_IDX 1,
        Cy_SysInt_Init, NVIC_SetPriority 2, NVIC_EnableIRQ,
        Cy_SAR2_Channel_SoftwareTrigger CE_SAR2_VBG_IDX] \<and>
   memory.truncate (configure_SAR_ADC sample_platform SIGNED_RIGHT_ALIGNED 8
            (configured UNSIGNED_RIGHT_ALIGNED 1)) =
     \<lparr>g_nextOutputFormat = UNSIGNED_RIGHT_ALIGNED, g_nextAverageCount = 1,
      g_outputFormat = SIGNED_RIGHT_ALIGNED, g_averageCount = 8,
      CE_SAR2_AN0_config =
        \<lparr>rightShift = 3, averageCount = 8,
         resultAlignment = CY_SAR2_RESULT_ALIGNMENT_RIGHT,
         signExtention = CY_SAR2_SIGN_EXTENTION_SIGNED\<rparr>\<rparr>"
proof -
  have h1: "g_outputFormat (configured UNSIGNED_RIGHT_ALIGNED 1) \<noteq> SIGNED_RIGHT_ALIGNED \<or>
            g_averageCount (configured UNSIGNED_RIGHT_ALIGNED 1) \<noteq> 8"
    by (simp add: configured_fields enum_defs)
  have h2: "spec_format_table SIGNED_RIGHT_ALIGNED =
     Some (CY_SAR2_RESULT_ALIGNMENT_RIGHT, CY_SAR2_SIGN_EXTENTION_SIGNED)"
    by (simp add: spec_format_table_def enum_defs)
  have cfg: "CE_SAR2_AN0_config (configured UNSIGNED_RIGHT_ALIGNED 1) = sample_config"
    by (simp add: configured_def configure_SAR_ADC_def Let_def startup_def sample_config_def
        sample_platform_def enum_defs ilog2.simps)
  show ?thesis
    using configure_SAR_ADC_changed_config [OF h1 h2, of sample_platform] h2
    by (simp add: Let_def calls_def configured_fields cfg sample_config_def sample_platform_def
        ilog2_8 enum_defs memory.truncate_def)
qed

text \<open>
  C4, as the code has it. For every transformed code and every reference code other than 0,
  the voltage expression yields a value, and that value, read as a number, is the product
  of the transformed code and 900 divided by the reference code with the remainder
  dropped; the 32-bit product never wraps. For the transformed code 0x400 and the
  reference code 0x400 the value is exactly 900.
\<close>

theorem potentiometer_voltage_truncating_division:
  assumes "r \<noteq> 0"
  shows "(\<exists>mV. potentiometer_voltage t r = Inr mV \<and> unat mV = unat t * 900 div unat r) \<and>
         potentiometer_voltage 0x400 0x400 = Inr 900"
proof -
  have "potentiometer_voltage 0x400 0x400 = Inr 900"
    by (simp add: potentiometer_voltage_def BAND_GAP_MV_def)
  with voltage_nonzero [OF assms, of t] unat_voltage [of t r] show ?thesis by simp
qed

theorem potentiometer_voltage_truncating_division_witness:
  "(0x400 :: uint16_t) \<noteq> 0 \<and>
   (\<exists>mV. potentiometer_voltage 0x7FF 0x400 = Inr mV \<and> unat mV = 1799)"
proof -
  have h: "(0x400 :: uint16_t) \<noteq> 0" by simp
  from potentiometer_voltage_truncating_division [OF h, of "0x7FF"] show ?thesis by simp
qed

text \<open>With the reference code 0 the expression has no value: the source divides by zero.\<close>

theorem potentiometer_voltage_zero_reference:
  "potentiometer_voltage 0x400 0 = Inl DivisionByZero"
  by (simp add: potentiometer_voltage_def)

text \<open>
  C6. Starting from any state whose pending average count is 1, after every sequence of
  values read from the UART the pending average count is a power of two between 1 and 256.
  From such a state a read whose low byte is \<open>a\<close> halves the count unless it is 1, and
  then leaves it; a read whose low byte is \<open>d\<close> doubles it unless it is 256, and then
  leaves it.
\<close>

theorem pending_average_count_power_of_two:
  assumes "g_nextAverageCount s0 = 1"
  shows "let s = main_loop rxs s0; c = sint (g_nextAverageCount s) in
     (\<exists>k\<le>8. c = 2 ^ k) \<and>
     ((ucast ra :: uint8_t) = of_char CHR ''a'' \<longrightarrow>
        sint (g_nextAverageCount (main_loop_body ra s)) = (if c = 1 then 1 else c div 2)) \<and>
     ((ucast rd :: uint8_t) = of_char CHR ''d'' \<longrightarrow>
        sint (g_nextAverageCount (main_loop_body rd s)) = (if c = 256 then 256 else 2 * c))"
proof -
  have ok: "g_nextAverageCount (main_loop rxs s0) \<in> {1, 2, 4, 8, 16, 32, 64, 128, 256}"
    by (rule loop_count_ok) (simp add: assms)
  show ?thesis
    unfolding Let_def
  proof (intro conjI impI)
    show "\<exists>k\<le>8. sint (g_nextAverageCount (main_loop rxs s0)) = 2 ^ k"
      by (rule count_ok_pow2 [OF ok])
  next
    assume "(ucast ra :: uint8_t) = of_char CHR ''a''"
    then have "(ucast ra :: uint8_t) = 0x61" by simp
    then show "sint (g_nextAverageCount (main_loop_body ra (main_loop rxs s0))) =
       (if sint (g_nextAverageCount (main_loop rxs s0)) = 1 then 1
        else sint (g_nextAverageCount (main_loop rxs s0)) div 2)"
      by (simp only: body_key_a count_step_a [OF ok])
  next
    assume "(ucast rd :: uint8_t) = of_char CHR ''d''"
    then have "(ucast rd :: uint8_t) = 0x64" by simp
    then show "sint (g_nextAverageCount (main_loop_body rd (main_loop rxs s0))) =
       (if sint (g_nextAverageCount (main_loop rxs s0)) = 256 then 256
        else 2 * sint (g_nextAverageCount (main_loop rxs s0)))"
      by (simp only: body_key_d count_step_d [OF ok])
  qed
qed

theorem pending_average_count_power_of_two_witness:
  "g_nextAverageCount (startup sample_config) = 1 \<and>
   sint (g_nextAverageCount (main_loop [0x64, 0x64] (startup sample_config))) = 4 \<and>
   sint (g_nextAverageCount
          (main_loop_body 0x61 (main_loop [0x64, 0x64] (startup sample_config)))) = 2 \<and>
   sint (g_nextAverageCount
          (main_loop_body 0x64 (main_loop [0x64, 0x64] (startup sample_config)))) = 8"
proof -
  have h: "g_nextAverageCount (startup sample_config) = 1"
    by (simp add: startup_def)
  have c: "sint (g_nextAverageCount (main_loop [0x64, 0x64] (startup sample_config))) = 4"
    by (simp add: body_next_count Let_def startup_def)
  from pending_average_count_power_of_two [OF h, of "[0x64, 0x64]" "0x61" "0x64"] c h show ?thesis
    by (simp add: Let_def)
qed

text \<open>
  C7. When the pending output format is one of the three enumerators, a read whose low
  byte is \<open>s\<close> moves it to the next one, from \<open>LEFT_ALIGNED\<close> back to
  \<open>UNSIGNED_RIGHT_ALIGNED\<close>, and three such reads in a row bring it back to where it was.
\<close>

theorem pending_output_format_three_cycle:
  assumes "g_nextOutputFormat s \<in> {UNSIGNED_RIGHT_ALIGNED, SIGNED_RIGHT_ALIGNED, LEFT_ALIGNED}"
    and "(ucast r1 :: uint8_t) = of_char CHR ''s''"
    and "(ucast r2 :: uint8_t) = of_char CHR ''s''"
    and "(ucast r3 :: uint8_t) = of_char CHR ''s''"
  shows "g_nextOutputFormat (main_loop_body r1 s) =
           (if g_nextOutputFormat s = UNSIGNED_RIGHT_ALIGNED then SIGNED_RIGHT_ALIGNED
            else if g_nextOutputFormat s = SIGNED_RIGHT_ALIGNED then LEFT_ALIGNED
            else UNSIGNED_RIGHT_ALIGNED) \<and>
         g_nextOutputFormat (main_loop [r1, r2, r3] s) = g_nextOutputFormat s"
proof -
  from assms(2-4) have k: "(ucast r1 :: uint8_t) = 0x73" "(ucast r2 :: uint8_t) = 0x73"
    "(ucast r3 :: uint8_t) = 0x73"
    by simp_all
  from assms(1) show ?thesis
    unfolding enum_defs
    by (elim insertE emptyE) (simp_all add: body_key_s k word_sless_alt)
qed

theorem pending_output_format_three_cycle_witness:
  "g_nextOutputFormat (startup sample_config) = UNSIGNED_RIGHT_ALIGNED \<and>
   g_nextOutputFormat (main_loop_body 0x73 (startup sample_config)) = SIGNED_RIGHT_ALIGNED \<and>
   g_nextOutputFormat (main_loop [0x73, 0x73, 0x73] (startup sample_config)) =
     UNSIGNED_RIGHT_ALIGNED"
proof -
  have h: "g_nextOutputFormat (startup sample_config) \<in>
      {UNSIGNED_RIGHT_ALIGNED, SIGNED_RIGHT_ALIGNED, LEFT_ALIGNED}"
    by (simp add: startup_def)
  have k: "(ucast (0x73 :: uint32_t) :: uint8_t) = of_char CHR ''s''"
    by simp
  have f: "g_nextOutputFormat (startup sample_config) = UNSIGNED_RIGHT_ALIGNED"
    by (simp add: startup_def)
  from pending_output_format_three_cycle [OF h k k k] f show ?thesis
    by simp
qed

text \<open>
  C8. For every interrupt status other than group-done the handler reads
  the status, clears it in the hardware and returns. It reads no result, prints nothing and
  does not reconfigure: the memory (pending and active configuration, channel configuration
  structure) is as before, and the two calls that read and clear the status are the only
  ones made.
\<close>

theorem handle_SAR_ADC_IRQ_foreign_status:
  assumes "intr_status hw \<noteq> CY_SAR2_INT_GRP_DONE p"
  shows "handle_SAR_ADC_IRQ p hw s =
     Inr (s\<lparr>trace := trace s @
            [(Cy_SAR2_Channel_GetInterruptStatus CE_SAR2_AN0_IDX, memory.truncate s),
             (Cy_SAR2_Channel_ClearInterrupt CE_SAR2_AN0_IDX (intr_status hw),
              memory.truncate s)]\<rparr>)"
  using handle_other [OF assms, of s] by (simp add: do_call_def)

theorem handle_SAR_ADC_IRQ_foreign_status_witness:
  "intr_status \<lparr>intr_status = 2, result_VBG = 0x400, result_AN0 = 0x400\<rparr> \<noteq>
     CY_SAR2_INT_GRP_DONE sample_platform \<and>
   map_sum id calls
     (handle_SAR_ADC_IRQ sample_platform
        \<lparr>intr_status = 2, result_VBG = 0x400, result_AN0 = 0x400\<rparr>
        (configured UNSIGNED_RIGHT_ALIGNED 1)) =
     Inr (calls (configured UNSIGNED_RIGHT_ALIGNED 1) @
       [Cy_SAR2_Channel_GetInterruptStatus CE_SAR2_AN0_IDX,
        Cy_SAR2_Channel_ClearInterrupt CE_SAR2_AN0_IDX 2])"
proof -
  have h: "intr_status \<lparr>intr_status = 2, result_VBG = 0x400, result_AN0 = 0x400\<rparr> \<noteq>
     CY_SAR2_INT_GRP_DONE sample_platform"
    by (simp add: sample_platform_def)
  from handle_SAR_ADC_IRQ_foreign_status [OF h, of "configured UNSIGNED_RIGHT_ALIGNED 1"] h show ?thesis
    by (simp add: calls_def)
qed

text \<open>
  C9, on a run of the code. With the raw code 0x800 the line of the raw value reads
  \<open>0x2048\<close>: the digits after the literal \<open>0x\<close> are those of the decimal number, since
  the conversion in the format string is \<^verbatim>\<open>PRIu16\<close>. The rest of the render is as the claim
  says: the label of the active format, the active average count, the raw code, the
  voltage, each on a line of its own, then the cursor moved up four lines.
\<close>

theorem handle_SAR_ADC_IRQ_raw_value_in_decimal:
  "map_sum id console
     (handle_SAR_ADC_IRQ sample_platform
        \<lparr>intr_status = 1, result_VBG = 0x400, result_AN0 = 0x800\<rparr>
        (configured UNSIGNED_RIGHT_ALIGNED 1)) =
   Inr (''Output format: Unsigned/Right Aligned'' @ [CR, LF] @
        ''Average count: 1'' @ [CR, LF] @
        ''Conversion result raw value: 0x2048'' @ [CR, LF] @
        ''Potentiometer voltage: 1800mV'' @ [CR, LF] @
        ESC # ''[4F'')"
proof -
  have h1: "intr_status \<lparr>intr_status = 1, result_VBG = 0x400, result_AN0 = 0x800\<rparr> =
      CY_SAR2_INT_GRP_DONE sample_platform"
    by (simp add: sample_platform_def)
  have h2: "OUTPUT_FORMAT_STR_at (g_outputFormat (configured UNSIGNED_RIGHT_ALIGNED 1)) =
      Inr ''Unsigned/Right Aligned''"
    by (simp add: configured_fields OUTPUT_FORMAT_STR_at_def OUTPUT_FORMAT_STR_def enum_defs)
  have v: "potentiometer_voltage 0x800 0x400 = Inr 1800"
    by (simp add: potentiometer_voltage_def BAND_GAP_MV_def)
  show ?thesis
    by (simp add: handle_group_done [OF h1 h2] configured_fields resultAN0_unsigned v
        console_configure console_do_call console_configured dec_nat.simps dec_int_def
        digit_char_def)
qed

text \<open>
  C10. On a group-done interrupt, with an active format that is one of the three
  enumerators: when the reference code is 0 the handler stops in a division by zero; when
  it is not 0 the handler returns, and the voltage line it has printed carries the product
  of the transformed code and 900 divided by the reference code, remainder dropped.
\<close>

theorem handle_SAR_ADC_IRQ_division_by_reference:
  assumes "intr_status hw = CY_SAR2_INT_GRP_DONE p"
    and "g_outputFormat s \<in> {UNSIGNED_RIGHT_ALIGNED, SIGNED_RIGHT_ALIGNED, LEFT_ALIGNED}"
  shows "let resultVBG = (ucast (result_VBG hw) :: uint16_t);
             result = resultAN0 (g_outputFormat s) (ucast (result_AN0 hw))
         in (resultVBG = 0 \<longrightarrow> handle_SAR_ADC_IRQ p hw s = Inl DivisionByZero) \<and>
            (resultVBG \<noteq> 0 \<longrightarrow>
               (\<exists>s'. handle_SAR_ADC_IRQ p hw s = Inr s' \<and>
                  console s' = console s @
                    ''Output format: '' @ OUTPUT_FORMAT_STR ! nat (sint (g_outputFormat s)) @ [CR, LF] @
                    ''Average count: '' @ dec_int (sint (g_averageCount s)) @ [CR, LF] @
                    ''Conversion result raw value: 0x'' @
                       dec_nat (unat (ucast (result_AN0 hw) :: uint16_t)) @ [CR, LF] @
                    ''Potentiometer voltage: '' @
                       dec_nat (unat result * 900 div unat resultVBG) @ ''mV'' @ [CR, LF] @
                    ESC # ''[4F''))"
proof -
  note gd = handle_group_done [OF assms(1) format_label [OF assms(2)]]
  show ?thesis
    unfolding Let_def
  proof (intro conjI impI)
    assume "(ucast (result_VBG hw) :: uint16_t) = 0"
    then show "handle_SAR_ADC_IRQ p hw s = Inl DivisionByZero"
      by (simp add: gd voltage_zero)
  next
    assume "(ucast (result_VBG hw) :: uint16_t) \<noteq> 0"
    from voltage_nonzero [OF this] show "\<exists>s'. handle_SAR_ADC_IRQ p hw s = Inr s' \<and>
                  console s' = console s @
                    ''Output format: '' @ OUTPUT_FORMAT_STR ! nat (sint (g_outputFormat s)) @ [CR, LF] @
                    ''Average count: '' @ dec_int (sint (g_averageCount s)) @ [CR, LF] @
                    ''Conversion result raw value: 0x'' @
                       dec_nat (unat (ucast (result_AN0 hw) :: uint16_t)) @ [CR, LF] @
                    ''Potentiometer voltage: '' @
                       dec_nat (unat (resultAN0 (g_outputFormat s) (ucast (result_AN0 hw))) * 900 div unat (ucast (result_VBG hw) :: uint16_t)) @ ''mV'' @ [CR, LF] @
                    ESC # ''[4F''"
      by (simp add: gd console_configure console_do_call unat_voltage)
  qed
qed

theorem handle_SAR_ADC_IRQ_division_by_reference_witness:
  "intr_status \<lparr>intr_status = 1, result_VBG = 0, result_AN0 = 0x400\<rparr> =
     CY_SAR2_INT_GRP_DONE sample_platform \<and>
   handle_SAR_ADC_IRQ sample_platform \<lparr>intr_status = 1, result_VBG = 0, result_AN0 = 0x400\<rparr>
     (configured UNSIGNED_RIGHT_ALIGNED 1) = Inl DivisionByZero \<and>
   (\<exists>s'. handle_SAR_ADC_IRQ sample_platform
            \<lparr>intr_status = 1, result_VBG = 0x400, result_AN0 = 0x400\<rparr>
            (configured UNSIGNED_RIGHT_ALIGNED 1) = Inr s' \<and>
         console s' =
           ''Output format: Unsigned/Right Aligned'' @ [CR, LF] @
           ''Average count: 1'' @ [CR, LF] @
           ''Conversion result raw value: 0x1024'' @ [CR, LF] @
           ''Potentiometer voltage: 900mV'' @ [CR, LF] @
           ESC # ''[4F'')"
proof -
  have h1: "intr_status \<lparr>intr_status = 1, result_VBG = v, result_AN0 = 0x400\<rparr> =
      CY_SAR2_INT_GRP_DONE sample_platform" for v
    by (simp add: sample_platform_def)
  have h2: "g_outputFormat (configured UNSIGNED_RIGHT_ALIGNED 1) \<in>
      {UNSIGNED_RIGHT_ALIGNED, SIGNED_RIGHT_ALIGNED, LEFT_ALIGNED}"
    by (simp add: configured_fields)
  show ?thesis
    using handle_SAR_ADC_IRQ_division_by_reference [OF h1 [of 0] h2] handle_SAR_ADC_IRQ_division_by_reference [OF h1 [of "0x400"] h2] h1 [of 0]
    by (simp add: Let_def configured_fields console_configured resultAN0_def enum_defs
        OUTPUT_FORMAT_STR_def dec_nat.simps dec_int_def digit_char_def)
qed

end
